theory Spec2Isabelle
  imports
    Complex_Main
    "HOL-Library.Char_ord"
    "HOL-Library.List_Lexorder"
    "HOL-Library.Product_Lexorder"
    "HOL-Library.AList"
begin

section \<open>monarch: the command line tool of \<^verbatim>\<open>monarch/__init__.py\<close>\<close>

text \<open>
  The module is Python 2. Its \<^verbatim>\<open>str\<close> is a byte string, modelled by \<^typ>\<open>string\<close>, and its
  string comparison is the lexicographic order of the bytes, which is the order of
  \<^typ>\<open>string\<close> here. A dictionary read from the settings file is a map; a dictionary the
  code builds and then iterates is an association list. A command runs in a state monad with
  exceptions: the state is the part of the machine the commands change, every \<^verbatim>\<open>raise\<close> and
  every \<^verbatim>\<open>exit()\<close> is a left value that skips the rest of the command.
\<close>

subsection \<open>Data\<close>

type_synonym bytes = string

text \<open>An entry of \<^verbatim>\<open>ENVIRONMENTS\<close>, with the keys of the settings template.\<close>

record environment =
  host :: string
  port :: nat
  db_name :: string

text \<open>
  The value of \<^verbatim>\<open>BACKUPS\<close>: \<^verbatim>\<open>None\<close>, or a dictionary of dictionaries
  (\<^verbatim>\<open>{'LOCAL': {'backup_dir': ...}}\<close>).
\<close>

datatype backups_value = PyNone | PyDict "string \<rightharpoonup> (string \<rightharpoonup> string)"

text \<open>
  \<^verbatim>\<open>Config\<close>. \<^verbatim>\<open>__init__\<close> sets the two directories to \<^verbatim>\<open>None\<close> and nothing else;
  \<^verbatim>\<open>configure_from_settings_file\<close> sets \<^verbatim>\<open>environments\<close> (or exits) and sets \<^verbatim>\<open>backups\<close>
  only when the settings define \<^verbatim>\<open>BACKUPS\<close>. So \<open>backups\<close> is optional as an attribute:
  \<open>None\<close> here means that the object has no such attribute, \<open>Some PyNone\<close> that it holds
  Python's \<^verbatim>\<open>None\<close>. In the same way \<open>environments = None\<close> is \<^verbatim>\<open>ENVIRONMENTS = None\<close>.
\<close>

record config =
  migration_directory :: "string option"
  config_directory :: "string option"
  environments :: "(string \<rightharpoonup> environment) option"
  backups :: "backups_value option"

datatype error =
    SystemExit
  | KeyError string
  | AttributeError string
  | TypeError
  | ValueError
  | IOError string
  | NotImplementedError
  | CollaboratorError string
  | Nontermination

text \<open>A file tree, as \<^verbatim>\<open>os.walk\<close> sees it, and a zip archive: its members in order.\<close>

datatype node = File bytes | Dir "(string \<times> node) list"

type_synonym path = "string list"
type_synonym zip_archive = "(path \<times> bytes) list"

text \<open>What a run does to the outside, in order.\<close>

datatype event =
    Echo string
  | Echo_envs
  | Confirm string bool
  | Connect environment
  | Process string string
  | Copy_mongo_db environment environment
  | Drop_mongo_db environment
  | Dump_db environment string
  | Restore_mongo_db string "(path \<times> bytes) list" environment

record date =
  year :: nat
  month :: nat
  day :: nat

datatype pyobj = Class string | NonClass

text \<open>
  The state a command changes: what it printed and called (\<open>trace\<close>), the temporary
  directories that exist, and the regular files the backup commands write, by path.
\<close>

record world =
  trace :: "event list"
  next_tmp :: nat
  tmp_dirs :: "string list"
  files :: "(string \<times> zip_archive) list"

text \<open>
  What a command reads and calls but does not own: the directories of the file system with
  their entries, the loaded migration modules, the history ledger, the operator, the clock
  and the collaborators of \<^verbatim>\<open>monarch.mongo\<close> and \<^verbatim>\<open>monarch.models\<close>, which are not part
  of this file. A collaborator is a parameter: it either raises or returns.
\<close>

record ext =
  cwd :: string
  dirs :: "(string \<times> string list) list"
  getmembers :: "string \<Rightarrow> (string \<times> pyobj) list"
  find_by_key :: "string \<rightharpoonup> string"
  process_result :: "string \<Rightarrow> error option"
  confirm_answer :: bool
  utcnow :: date
  getsize :: "string \<Rightarrow> nat"
  dump_result :: "environment \<Rightarrow> string \<Rightarrow> error + (path \<times> (string \<times> node) list)"
  extractall_result :: "error option"
  restore_result :: "error option"

subsection \<open>The monad of a command\<close>

type_synonym 'a io = "world \<Rightarrow> (error + 'a) \<times> world"

definition io_return :: "'a \<Rightarrow> 'a io" where
  "io_return x w = (Inr x, w)"

definition io_raise :: "error \<Rightarrow> 'a io" where
  "io_raise e w = (Inl e, w)"

definition io_bind :: "'a io \<Rightarrow> ('a \<Rightarrow> 'b io) \<Rightarrow> 'b io" where
  "io_bind m f w = (case m w of (Inl e, w') \<Rightarrow> (Inl e, w') | (Inr x, w') \<Rightarrow> f x w')"

definition io_seq :: "unit io \<Rightarrow> 'b io \<Rightarrow> 'b io" where
  "io_seq m k = io_bind m (\<lambda>_. k)"

definition io_when :: "bool \<Rightarrow> unit io \<Rightarrow> unit io" where
  "io_when b m = (if b then m else io_return ())"

definition emit :: "event \<Rightarrow> unit io" where
  "emit e w = (Inr (), w\<lparr>trace := trace w @ [e]\<rparr>)"

definition echo :: "string \<Rightarrow> unit io" where
  "echo s = emit (Echo s)"

text \<open>\<^verbatim>\<open>exit_with_message\<close>: three lines, then \<^verbatim>\<open>exit()\<close>, which raises \<^verbatim>\<open>SystemExit\<close>.\<close>

definition exit_with_message :: "string \<Rightarrow> 'a io" where
  "exit_with_message message =
     io_seq (echo [])
       (io_seq (echo message)
         (io_seq (echo [])
           (io_raise SystemExit)))"

text \<open>\<^verbatim>\<open>click.confirm(text)\<close>: the prompt, and the operator's answer.\<close>

definition confirm :: "ext \<Rightarrow> string \<Rightarrow> bool io" where
  "confirm x text =
     io_seq (emit (Confirm text (confirm_answer x))) (io_return (confirm_answer x))"

text \<open>\<^verbatim>\<open>key in d\<close> and \<^verbatim>\<open>d[key]\<close> on a value that may be \<^verbatim>\<open>None\<close>.\<close>

definition py_in :: "string \<Rightarrow> (string \<rightharpoonup> 'v) option \<Rightarrow> bool io" where
  "py_in k d = (case d of None \<Rightarrow> io_raise TypeError | Some m \<Rightarrow> io_return (k \<in> dom m))"

definition py_getitem :: "(string \<rightharpoonup> 'v) option \<Rightarrow> string \<Rightarrow> 'v io" where
  "py_getitem d k =
     (case d of
        None \<Rightarrow> io_raise TypeError
      | Some m \<Rightarrow> (case m k of None \<Rightarrow> io_raise (KeyError k) | Some v \<Rightarrow> io_return v))"

subsection \<open>Strings, paths and dates\<close>

text \<open>\<^verbatim>\<open>"{}".format(n)\<close> for a number: its decimal digits.\<close>

definition digit_char :: "nat \<Rightarrow> char" where
  "digit_char d = ''0123456789'' ! d"

fun str_nat :: "nat \<Rightarrow> string" where
  "str_nat n = (if n < 10 then [digit_char n] else str_nat (n div 10) @ [digit_char (n mod 10)])"

declare str_nat.simps [simp del]

text \<open>\<^verbatim>\<open>"{}".format(v)\<close> for a value that may be \<^verbatim>\<open>None\<close>.\<close>

definition str_opt :: "string option \<Rightarrow> string" where
  "str_opt v = (case v of None \<Rightarrow> ''None'' | Some s \<Rightarrow> s)"

text \<open>\<^verbatim>\<open>"{:50}".format(s)\<close>: left-justified in a field of 50.\<close>

definition ljust :: "nat \<Rightarrow> string \<Rightarrow> string" where
  "ljust n s = s @ replicate (n - length s) CHR '' ''"

definition zfill :: "nat \<Rightarrow> string \<Rightarrow> string" where
  "zfill n s = replicate (n - length s) CHR ''0'' @ s"

text \<open>\<^verbatim>\<open>strftime("%Y_%m_%d")\<close>.\<close>

definition strftime_Y_m_d :: "date \<Rightarrow> string" where
  "strftime_Y_m_d d =
     zfill 4 (str_nat (year d)) @ ''_'' @ zfill 2 (str_nat (month d)) @ ''_'' @
     zfill 2 (str_nat (day d))"

text \<open>\<^verbatim>\<open>os.path.join(a, b)\<close> of \<^verbatim>\<open>posixpath\<close>.\<close>

definition path_join :: "string \<Rightarrow> string \<Rightarrow> string" where
  "path_join a b =
     (if b \<noteq> [] \<and> hd b = CHR ''/'' then b
      else if a = [] \<or> last a = CHR ''/'' then a @ b
      else a @ ''/'' @ b)"

text \<open>\<^verbatim>\<open>s.split(sep)\<close> for a separator of one character.\<close>

fun split_on :: "char \<Rightarrow> string \<Rightarrow> string list" where
  "split_on c [] = [[]]"
| "split_on c (a # s) =
     (if a = c then [] # split_on c s
      else (case split_on c s of [] \<Rightarrow> [[a]] | p # ps \<Rightarrow> (a # p) # ps))"

definition endswith :: "string \<Rightarrow> string \<Rightarrow> bool" where
  "endswith s suffix = (length suffix \<le> length s \<and> drop (length s - length suffix) s = suffix)"

text \<open>
  On paths as lists of components: \<^verbatim>\<open>os.path.join(root, file)\<close> adds a component, and
  \<^verbatim>\<open>os.path.relpath(p, start)\<close> climbs out of what \<open>start\<close> does not share with \<open>p\<close> and
  descends into the rest of \<open>p\<close>.
\<close>

fun commonprefix :: "path \<Rightarrow> path \<Rightarrow> path" where
  "commonprefix (a # as) (b # bs) = (if a = b then a # commonprefix as bs else [])"
| "commonprefix _ _ = []"

definition relpath :: "path \<Rightarrow> path \<Rightarrow> path" where
  "relpath p start =
     (let i = length (commonprefix start p)
      in replicate (length start - i) ''..'' @ drop i p)"

subsection \<open>\<^verbatim>\<open>sizeof_fmt\<close>\<close>

text \<open>
  \<^verbatim>\<open>"%3.1f" % num\<close>: one decimal, rounded to nearest, ties to even; the field width 3 never
  pads, the shortest output \<^verbatim>\<open>0.0\<close> has three characters.
\<close>

definition round_half_even :: "rat \<Rightarrow> nat" where
  "round_half_even q =
     (let f = nat \<lfloor>q\<rfloor>; r = q - of_nat f
      in if r < 1 / 2 then f else if 1 / 2 < r then Suc f else if even f then f else Suc f)"

definition fmt_3_1f :: "rat \<Rightarrow> string" where
  "fmt_3_1f q =
     (let t = round_half_even (q * 10) in str_nat (t div 10) @ ''.'' @ str_nat (t mod 10))"

text \<open>
  The loop of \<^verbatim>\<open>sizeof_fmt\<close> over the five units; falling out of the loop returns \<^verbatim>\<open>None\<close>.
  \<open>num\<close> is a size in bytes, then that size divided by 1024 some times. Python divides floats;
  a division by 1024 is exact on a float, and every size below \<open>2 ^ 53\<close> is a float, so the
  rational number here is the float there. From \<open>2 ^ 53\<close> on the conversion rounds, to a
  float that is still at least \<open>2 ^ 53\<close>, and the five tests fail there as they do here.
\<close>

fun sizeof_loop :: "string list \<Rightarrow> rat \<Rightarrow> string option" where
  "sizeof_loop [] num = None"
| "sizeof_loop (x # xs) num =
     (if num < 1024 then Some (fmt_3_1f num @ '' '' @ x) else sizeof_loop xs (num / 1024))"

definition units :: "string list" where
  "units = [''bytes'', ''KB'', ''MB'', ''GB'', ''TB'']"

definition sizeof_fmt :: "nat \<Rightarrow> string option" where
  "sizeof_fmt num = sizeof_loop units (of_nat num)"

subsection \<open>\<^verbatim>\<open>generate_unique_name\<close>\<close>

text \<open>
  The two names the function formats. The clock is read anew for every name; within one
  call it gives one date, the parameter \<open>d\<close>.
\<close>

definition name_attempt :: "environment \<Rightarrow> date \<Rightarrow> string" where
  "name_attempt environemnt d =
     db_name environemnt @ ''__'' @ strftime_Y_m_d d @ ''.dmp.zip''"

definition name_attempt_counter :: "environment \<Rightarrow> date \<Rightarrow> nat \<Rightarrow> string" where
  "name_attempt_counter environemnt d counter =
     db_name environemnt @ ''__'' @ strftime_Y_m_d d @ ''_'' @ str_nat counter @ ''.dmp.zip''"

text \<open>
  The \<^verbatim>\<open>while True\<close> loop, entered with \<open>counter\<close>: it adds one, formats the name and tests
  the path. \<open>path_exists\<close> is \<^verbatim>\<open>os.path.exists\<close>. A loop that never leaves has the value
  \<open>None\<close>.
\<close>

partial_function (option) unique_name_loop ::
  "(string \<Rightarrow> bool) \<Rightarrow> string \<Rightarrow> environment \<Rightarrow> date \<Rightarrow> nat \<Rightarrow> string option" where
  "unique_name_loop path_exists backup_dir environemnt d counter =
     (if path_exists (path_join backup_dir (name_attempt_counter environemnt d (Suc counter)))
      then unique_name_loop path_exists backup_dir environemnt d (Suc counter)
      else Some (path_join backup_dir (name_attempt_counter environemnt d (Suc counter))))"

declare unique_name_loop.simps [code]

definition generate_unique_name ::
  "(string \<Rightarrow> bool) \<Rightarrow> string \<Rightarrow> environment \<Rightarrow> date \<Rightarrow> string option" where
  "generate_unique_name path_exists backup_dir environemnt d =
     (let name_attemp_full_path = path_join backup_dir (name_attempt environemnt d)
      in if \<not> path_exists name_attemp_full_path then Some name_attemp_full_path
         else unique_name_loop path_exists backup_dir environemnt d 1)"

subsection \<open>Packing and unpacking\<close>

text \<open>The names of the files, with their bytes, and of the subdirectories of a directory.\<close>

fun files_of :: "(string \<times> node) list \<Rightarrow> (string \<times> bytes) list" where
  "files_of [] = []"
| "files_of ((n, File b) # es) = (n, b) # files_of es"
| "files_of ((n, Dir sub) # es) = files_of es"

fun dirnames_of :: "(string \<times> node) list \<Rightarrow> string list" where
  "dirnames_of [] = []"
| "dirnames_of ((n, File b) # es) = dirnames_of es"
| "dirnames_of ((n, Dir sub) # es) = n # dirnames_of es"

text \<open>
  \<^verbatim>\<open>os.walk(top)\<close>, top down: the triple of a directory, then the walks of its
  subdirectories. A file name comes with what reading that file gives.
\<close>

fun walk :: "path \<Rightarrow> (string \<times> node) list \<Rightarrow> (path \<times> string list \<times> (string \<times> bytes) list) list"
  and walk_subdirs ::
    "path \<Rightarrow> (string \<times> node) list \<Rightarrow> (path \<times> string list \<times> (string \<times> bytes) list) list" where
  "walk rootdir es = (rootdir, dirnames_of es, files_of es) # walk_subdirs rootdir es"
| "walk_subdirs rootdir [] = []"
| "walk_subdirs rootdir ((n, File b) # es) = walk_subdirs rootdir es"
| "walk_subdirs rootdir ((n, Dir sub) # es) = walk (rootdir @ [n]) sub @ walk_subdirs rootdir es"

text \<open>
  \<^verbatim>\<open>zipdir\<close> of \<^verbatim>\<open>backup_localy\<close>: every file is written under the name
  \<^verbatim>\<open>os.path.relpath(os.path.join(root, file), root)\<close>, where \<^verbatim>\<open>root\<close>
  (here \<open>rootdir\<close>) is the directory the walk is in.
\<close>

definition zipdir :: "path \<Rightarrow> (string \<times> node) list \<Rightarrow> zip_archive" where
  "zipdir path tree =
     concat (map (\<lambda>(rootdir, dirnames, filenames).
        map (\<lambda>(file, b). (relpath (rootdir @ [file]) rootdir, b)) filenames) (walk path tree))"

text \<open>The files below a directory, each with its path from that directory.\<close>

definition files_under :: "(string \<times> node) list \<Rightarrow> (path \<times> bytes) list" where
  "files_under tree =
     concat (map (\<lambda>(rootdir, dirnames, filenames). map (\<lambda>(file, b). (rootdir @ [file], b)) filenames)
       (walk [] tree))"

text \<open>
  \<^verbatim>\<open>ZipFile.extractall\<close>: the members are written in order, each at its name below the target
  directory, a later member over an earlier file of that name. The result is the files below
  the target directory.
\<close>

definition extractall :: "zip_archive \<Rightarrow> (path \<times> bytes) list" where
  "extractall zipf = foldl (\<lambda>fs (arcname, b). AList.update arcname b fs) [] zipf"

subsection \<open>The file system and the collaborators\<close>

definition isdir :: "ext \<Rightarrow> string \<Rightarrow> bool" where
  "isdir x d = (map_of (dirs x) d \<noteq> None)"

definition listdir :: "ext \<Rightarrow> string \<Rightarrow> string list" where
  "listdir x d = (case map_of (dirs x) d of None \<Rightarrow> [] | Some names \<Rightarrow> names)"

definition path_exists :: "ext \<Rightarrow> world \<Rightarrow> string \<Rightarrow> bool" where
  "path_exists x w p =
     (p \<in> set (map fst (files w)) \<or> p \<in> set (tmp_dirs w) \<or> p \<in> set (map fst (dirs x)))"

text \<open>\<^verbatim>\<open>mkdtemp()\<close> makes a directory of a name not used before; \<^verbatim>\<open>shutil.rmtree\<close> removes it.\<close>

definition mkdtemp :: "string io" where
  "mkdtemp w =
     (let temp_dir = ''/tmp/tmp'' @ str_nat (next_tmp w)
      in (Inr temp_dir, w\<lparr>next_tmp := Suc (next_tmp w), tmp_dirs := temp_dir # tmp_dirs w\<rparr>))"

definition rmtree :: "string \<Rightarrow> unit io" where
  "rmtree d w = (Inr (), w\<lparr>tmp_dirs := removeAll d (tmp_dirs w)\<rparr>)"

text \<open>
  The context manager \<^verbatim>\<open>temp_directory\<close> is a generator with no \<^verbatim>\<open>try\<close>: \<^verbatim>\<open>mkdtemp\<close>, the
  \<^verbatim>\<open>yield\<close> at which the body of the \<^verbatim>\<open>with\<close> runs, then \<^verbatim>\<open>rmtree\<close>. An exception of the
  body is thrown into the generator at the \<^verbatim>\<open>yield\<close> and leaves it there, so \<^verbatim>\<open>rmtree\<close> runs
  only after a body that returned.
\<close>

definition temp_directory :: "(string \<Rightarrow> unit io) \<Rightarrow> unit io" where
  "temp_directory body =
     io_bind mkdtemp (\<lambda>temp_dir. io_seq (body temp_dir) (rmtree temp_dir))"

definition write_file :: "string \<Rightarrow> zip_archive \<Rightarrow> unit io" where
  "write_file p z w = (Inr (), w\<lparr>files := AList.update p z (files w)\<rparr>)"

definition open_zip :: "string \<Rightarrow> zip_archive io" where
  "open_zip p w = (case map_of (files w) p of None \<Rightarrow> (Inl (IOError p), w) | Some z \<Rightarrow> (Inr z, w))"

text \<open>\<^verbatim>\<open>shutil.move(src, dst)\<close> of a file to a path that is not a directory.\<close>

definition move :: "string \<Rightarrow> string \<Rightarrow> unit io" where
  "move src dst w =
     (case map_of (files w) src of
        None \<Rightarrow> (Inl (IOError src), w)
      | Some z \<Rightarrow> (Inr (), w\<lparr>files := AList.update dst z (AList.delete src (files w))\<rparr>))"

definition dump_db :: "ext \<Rightarrow> environment \<Rightarrow> string \<Rightarrow> (path \<times> (string \<times> node) list) io" where
  "dump_db x e temp_dir =
     io_seq (emit (Dump_db e temp_dir))
       (case dump_result x e temp_dir of Inl err \<Rightarrow> io_raise err | Inr r \<Rightarrow> io_return r)"

definition zip_extractall :: "ext \<Rightarrow> zip_archive \<Rightarrow> (path \<times> bytes) list io" where
  "zip_extractall x z =
     (case extractall_result x of Some err \<Rightarrow> io_raise err | None \<Rightarrow> io_return (extractall z))"

definition restore_mongo_db :: "ext \<Rightarrow> string \<Rightarrow> (path \<times> bytes) list \<Rightarrow> environment \<Rightarrow> unit io" where
  "restore_mongo_db x temp_dir content e =
     io_seq (emit (Restore_mongo_db temp_dir content e))
       (case restore_result x of Some err \<Rightarrow> io_raise err | None \<Rightarrow> io_return ())"

fun io_foreach :: "('a \<Rightarrow> unit io) \<Rightarrow> 'a list \<Rightarrow> unit io" where
  "io_foreach f [] = io_return ()"
| "io_foreach f (a # as) = io_seq (f a) (io_foreach f as)"

subsection \<open>Backup and restore\<close>

definition backup_localy :: "ext \<Rightarrow> config \<Rightarrow> string \<Rightarrow> (string \<rightharpoonup> string) \<Rightarrow> unit io" where
  "backup_localy x config env_name local_settings =
     (case local_settings ''backup_dir'' of
        None \<Rightarrow>
          exit_with_message ''Local Settings not configured correctly, expecting \"backup_dir\"''
      | Some backup_dir \<Rightarrow>
          io_seq (io_when (\<not> isdir x backup_dir)
            (exit_with_message (''Directory ['' @ backup_dir @ ''] does not exist.  Exiting ...'')))
         (io_bind mkdtemp (\<lambda>temp_dir.
          io_seq (emit Echo_envs)
         (io_bind (py_getitem (environments config) env_name) (\<lambda>e.
          io_bind (dump_db x e temp_dir) (\<lambda>(dump_path, tree).
          io_seq (echo ''Zipping File'')
         (io_seq (write_file ''MongoDump.zip'' (zipdir dump_path tree))
         (io_seq (echo (''Moving MongoDump.zip file into: '' @ backup_dir))
         (io_bind (\<lambda>w. case generate_unique_name (path_exists x w) backup_dir e (utcnow x) of
                          None \<Rightarrow> (Inl Nontermination, w)
                        | Some unique_file_path \<Rightarrow> (Inr unique_file_path, w))
            (\<lambda>unique_file_path. move ''MongoDump.zip'' unique_file_path))))))))))"

definition restore_db :: "ext \<Rightarrow> string \<Rightarrow> environment \<Rightarrow> unit io" where
  "restore_db x zip_path to_environment =
     io_bind (open_zip zip_path) (\<lambda>z.
     io_seq (temp_directory (\<lambda>temp_dir.
               io_bind (zip_extractall x z) (\<lambda>content.
               restore_mongo_db x temp_dir content to_environment)))
    (io_seq (echo [])
    (io_seq (echo ''Rock and roll that seemed to go well -- Nice work'')
            (echo []))))"

definition local_backups :: "ext \<Rightarrow> (string \<rightharpoonup> string) \<Rightarrow> (string \<times> string) list io" where
  "local_backups x local_config =
     (case local_config ''backup_dir'' of
        None \<Rightarrow>
          exit_with_message ''Local Settings not configured correctly, expecting \"backup_dir\"''
      | Some backup_dir \<Rightarrow>
          io_seq (io_when (\<not> isdir x backup_dir)
            (exit_with_message (''Directory ['' @ backup_dir @ ''] does not exist.  Exiting ...'')))
            (io_return (map (\<lambda>item. (item, path_join backup_dir item)) (listdir x backup_dir))))"

text \<open>\<^verbatim>\<open>backups(config)\<close>; reading \<^verbatim>\<open>config.backups\<close> raises when the attribute is not there.\<close>

definition backups_fn :: "ext \<Rightarrow> config \<Rightarrow> (string \<times> string) list io" where
  "backups_fn x config =
     (case backups config of
        None \<Rightarrow> io_raise (AttributeError ''backups'')
      | Some PyNone \<Rightarrow> exit_with_message ''BACKUPS not configured, exiting''
      | Some (PyDict b) \<Rightarrow>
          (case b ''LOCAL'' of
             Some local_config \<Rightarrow> local_backups x local_config
           | None \<Rightarrow>
               (case b ''S3'' of
                  Some s3_config \<Rightarrow> io_raise NotImplementedError
                | None \<Rightarrow> exit_with_message ''BACKUPS not configured, exiting'')))"

definition list_local_backups :: "ext \<Rightarrow> (string \<rightharpoonup> string) \<Rightarrow> unit io" where
  "list_local_backups x local_config =
     io_bind (local_backups x local_config) (\<lambda>local_backups_dict.
       io_foreach (\<lambda>(backup, p). echo (ljust 50 backup @ '' '' @ str_opt (sizeof_fmt (getsize x p))))
         local_backups_dict)"

subsection \<open>Migration discovery\<close>

text \<open>\<^verbatim>\<open>os.path.basename\<close>, and the first component of \<^verbatim>\<open>os.path.splitext\<close> of a base name.\<close>

definition basename :: "string \<Rightarrow> string" where
  "basename p = rev (takeWhile (\<lambda>c. c \<noteq> CHR ''/'') (rev p))"

definition splitext_root :: "string \<Rightarrow> string" where
  "splitext_root p =
     (let stem = butlast (rev (dropWhile (\<lambda>c. c \<noteq> CHR ''.'') (rev p)))
      in if CHR ''.'' \<in> set p \<and> (\<exists>c \<in> set stem. c \<noteq> CHR ''.'') then stem else p)"

text \<open>
  \<^verbatim>\<open>glob('{}/*_migration.py'.format(config.migration_directory))\<close>. \<^verbatim>\<open>format\<close> writes
  \<^verbatim>\<open>None\<close> as the word; a directory that does not exist has no matches; \<^verbatim>\<open>*\<close> does not
  match a leading dot.
\<close>

definition glob_migrations :: "ext \<Rightarrow> string option \<Rightarrow> string list" where
  "glob_migrations x migration_dir =
     (let d = str_opt migration_dir
      in case map_of (dirs x) d of
           None \<Rightarrow> []
         | Some names \<Rightarrow>
             map (\<lambda>n. d @ ''/'' @ n)
               (filter (\<lambda>n. endswith n ''_migration.py'' \<and> hd n \<noteq> CHR ''.'') names))"

text \<open>
  The inner loop over \<^verbatim>\<open>inspect.getmembers\<close>: every member that is a class, with a name that
  ends in \<^verbatim>\<open>Migration\<close> and is not one of the two base classes, is stored under the name of the
  module, a later one over an earlier one.
\<close>

definition is_migration_class :: "string \<times> pyobj \<Rightarrow> bool" where
  "is_migration_class m =
     (case m of
        (name, Class c) \<Rightarrow>
          endswith name ''Migration'' \<and> name \<notin> set [''BaseMigration'', ''MongoBackedMigration'']
      | (name, NonClass) \<Rightarrow> False)"

definition class_of :: "pyobj \<Rightarrow> string" where
  "class_of obj = (case obj of Class c \<Rightarrow> c | NonClass \<Rightarrow> [])"

definition add_members ::
  "string \<Rightarrow> (string \<times> pyobj) list \<Rightarrow> (string \<times> string) list \<Rightarrow> (string \<times> string) list" where
  "add_members migration_name members migrations =
     foldl (\<lambda>ms (name, obj). AList.update migration_name (class_of obj) ms) migrations
       (filter is_migration_class members)"

definition add_file :: "ext \<Rightarrow> (string \<times> string) list \<Rightarrow> string \<Rightarrow> (string \<times> string) list" where
  "add_file x migrations file =
     (let migration_name = splitext_root (basename file)
      in add_members migration_name (getmembers x migration_name) migrations)"

text \<open>
  \<^verbatim>\<open>find_migrations\<close>. The dictionary has one item for a name, so \<^verbatim>\<open>sorted\<close> compares the
  items by their names alone; the \<^verbatim>\<open>OrderedDict\<close> keeps that order.
\<close>

definition ordered :: "ext \<Rightarrow> config \<Rightarrow> (string \<times> string) list" where
  "ordered x config =
     sort_key fst (foldl (add_file x) [] (glob_migrations x (migration_directory config)))"

definition find_migrations :: "ext \<Rightarrow> config \<Rightarrow> (string \<times> string) list io" where
  "find_migrations x config =
     io_seq (echo (''fm 1 cwd: '' @ cwd x)) (io_return (ordered x config))"

definition establish_datastore_connection :: "environment \<Rightarrow> unit io" where
  "establish_datastore_connection e = emit (Connect e)"

text \<open>\<^verbatim>\<open>migration_class().process()\<close>, of \<^verbatim>\<open>monarch.models\<close>: it returns or it raises.\<close>

definition process :: "ext \<Rightarrow> string \<times> string \<Rightarrow> unit io" where
  "process x m =
     io_seq (emit (Process (fst m) (snd m)))
       (case process_result x (snd m) of Some err \<Rightarrow> io_raise err | None \<Rightarrow> io_return ())"

subsection \<open>The commands\<close>

definition lizt :: "ext \<Rightarrow> config \<Rightarrow> string \<Rightarrow> unit io" where
  "lizt x config env_name =
     io_bind (py_in env_name (environments config)) (\<lambda>known.
     io_seq (io_when (\<not> known) (exit_with_message ''Environment not described in settings.py''))
    (io_bind (find_migrations x config) (\<lambda>migrations_on_file_system.
     io_bind (py_getitem (environments config) env_name) (\<lambda>e.
     io_seq (establish_datastore_connection e)
      (if migrations_on_file_system \<noteq> [] then
         io_seq (echo ''Here are the migrations:'')
        (io_seq (echo (ljust 50 ''MIGRATIONS'' @ '' STATUS''))
           (io_foreach (\<lambda>(migration_name, c).
              case find_by_key x migration_name of
                Some state \<Rightarrow> echo (ljust 50 migration_name @ '' '' @ state)
              | None \<Rightarrow> echo (ljust 50 migration_name @ '' NOT RUN''))
            migrations_on_file_system))
       else echo ''No pending migrations'')))))"

definition migrate :: "ext \<Rightarrow> config \<Rightarrow> string \<Rightarrow> unit io" where
  "migrate x config env_name =
     io_bind (py_in env_name (environments config)) (\<lambda>known.
     io_seq (io_when (\<not> known) (exit_with_message ''Environment not described in settings.py''))
    (io_bind (find_migrations x config) (\<lambda>migrations.
       if migrations \<noteq> [] then
         io_bind (py_getitem (environments config) env_name) (\<lambda>e.
         io_seq (establish_datastore_connection e)
           (io_foreach (process x) migrations))
       else echo ''No migrations exist'')))"

definition copy_db :: "ext \<Rightarrow> config \<Rightarrow> string \<Rightarrow> unit io" where
  "copy_db x config from_to =
     io_seq (io_when (CHR '':'' \<notin> set from_to)
       (exit_with_message ''Expecting from:to syntax like production:local''))
     (case split_on CHR '':'' from_to of
        [from_db, to_db] \<Rightarrow>
          io_seq (io_when (environments config = None)
            (exit_with_message ''Configuration file should have a ENVIRONMENTS set''))
         (io_bind (py_in from_db (environments config)) (\<lambda>from_known.
          io_seq (io_when (\<not> from_known)
            (exit_with_message (''Environemnts does not have a specification for '' @ from_db)))
         (io_bind (py_in to_db (environments config)) (\<lambda>to_known.
          io_seq (io_when (\<not> to_known)
            (exit_with_message (''Environemnts does not have a specification for '' @ to_db)))
         (io_bind (confirm x (''Are you SURE you want to copy data from '' @ from_db @
                              '' into '' @ to_db @ ''?'')) (\<lambda>yes.
            if yes then
              io_seq (echo [])
             (io_seq (echo ''Okay, you asked for it ...'')
             (io_seq (echo [])
             (io_bind (py_getitem (environments config) from_db) (\<lambda>from_env.
              io_bind (py_getitem (environments config) to_db) (\<lambda>to_env.
              emit (Copy_mongo_db from_env to_env))))))
            else io_return ()))))))
      | _ \<Rightarrow> io_raise ValueError)"

definition drop_db :: "ext \<Rightarrow> config \<Rightarrow> string \<Rightarrow> unit io" where
  "drop_db x config env_name =
     io_bind (py_getitem (environments config) env_name) (\<lambda>e. emit (Drop_mongo_db e))"

definition confirm_environment :: "config \<Rightarrow> string \<Rightarrow> unit io" where
  "confirm_environment config env_name =
     io_bind (py_in env_name (environments config)) (\<lambda>known.
       io_when (\<not> known) (exit_with_message (env_name @ '' is not in settings.  Exiting ...'')))"

text \<open>\<^verbatim>\<open>backup\<close> asks \<^verbatim>\<open>hasattr(config, 'backups')\<close> before it reads the attribute.\<close>

definition backup :: "ext \<Rightarrow> config \<Rightarrow> string \<Rightarrow> unit io" where
  "backup x config env_name =
     io_seq (io_when (backups config = None) (exit_with_message ''BACKUPS not configured, exiting''))
    (io_seq (confirm_environment config env_name)
       (case backups config of
          None \<Rightarrow> io_raise (AttributeError ''backups'')
        | Some PyNone \<Rightarrow> io_raise TypeError
        | Some (PyDict b) \<Rightarrow>
            (case b ''LOCAL'' of
               Some local_settings \<Rightarrow> backup_localy x config env_name local_settings
             | None \<Rightarrow>
                 (case b ''S3'' of
                    Some s3_settings \<Rightarrow> io_raise NotImplementedError
                  | None \<Rightarrow> exit_with_message ''BACKUPS not configured, exiting''))))"

definition list_backups :: "ext \<Rightarrow> config \<Rightarrow> unit io" where
  "list_backups x config =
     (case backups config of
        None \<Rightarrow> io_raise (AttributeError ''backups'')
      | Some PyNone \<Rightarrow> exit_with_message ''BACKUPS not configured, exiting''
      | Some (PyDict b) \<Rightarrow>
          (case b ''LOCAL'' of
             Some local_config \<Rightarrow> list_local_backups x local_config
           | None \<Rightarrow>
               (case b ''S3'' of
                  Some s3_settings \<Rightarrow> io_return ()
                | None \<Rightarrow> exit_with_message ''BACKUPS not configured, exiting'')))"

definition restore :: "ext \<Rightarrow> config \<Rightarrow> string \<Rightarrow> unit io" where
  "restore x config from_to =
     io_seq (io_when (CHR '':'' \<notin> set from_to)
       (exit_with_message ''Expecting from:to syntax like production:local''))
     (case split_on CHR '':'' from_to of
        [backup_name, to_db] \<Rightarrow>
          io_seq (io_when (environments config = None)
            (exit_with_message ''Configuration file should have a ENVIRONMENTS set''))
         (io_bind (py_in to_db (environments config)) (\<lambda>to_known.
          io_seq (io_when (\<not> to_known)
            (exit_with_message (''Environemnts does not have a specification for '' @ to_db)))
         (io_bind (backups_fn x config) (\<lambda>found.
          io_seq (io_when (map_of found backup_name = None)
            (exit_with_message (''Can not find backup '' @ backup_name @
               '', run monarch list_backups to see your options'')))
         (io_bind (confirm x (''Are you SURE you want to retore backup into into '' @ to_db @
                              ''? It will delete the database first'')) (\<lambda>yes.
            if yes then
              io_seq (echo [])
             (io_seq (echo ''Okay, you asked for it ...'')
             (io_seq (echo [])
             (io_bind (backups_fn x config) (\<lambda>found_again.
              io_bind (py_getitem (Some (map_of found_again)) backup_name) (\<lambda>zip_path.
              io_bind (py_getitem (environments config) to_db) (\<lambda>to_env.
              restore_db x zip_path to_env))))))
            else io_return ()))))))
      | _ \<Rightarrow> io_raise ValueError)"

subsection \<open>Observations on a trace\<close>

text \<open>The calls that cannot be taken back: copying into, dropping and restoring a database.\<close>

definition destructive :: "event \<Rightarrow> bool" where
  "destructive e =
     (case e of
        Copy_mongo_db a b \<Rightarrow> True
      | Drop_mongo_db a \<Rightarrow> True
      | Restore_mongo_db t c a \<Rightarrow> True
      | _ \<Rightarrow> False)"

definition confirmed :: "event \<Rightarrow> bool" where
  "confirmed e = (case e of Confirm t yes \<Rightarrow> yes | _ \<Rightarrow> False)"

text \<open>
  \<open>gated ok evs\<close>: no call of \<open>evs\<close> that cannot be taken back comes before the operator
  has said yes; \<open>ok\<close> tells whether that has happened before \<open>evs\<close>.
\<close>

fun gated :: "bool \<Rightarrow> event list \<Rightarrow> bool" where
  "gated ok [] = True"
| "gated ok (e # es) = (if destructive e then ok \<and> gated ok es else gated (ok \<or> confirmed e) es)"

text \<open>What a run added to the trace.\<close>

definition new_events :: "world \<Rightarrow> world \<Rightarrow> event list" where
  "new_events w w' = drop (length (trace w)) (trace w')"

definition processed :: "event list \<Rightarrow> (string \<times> string) list" where
  "processed evs = concat (map (\<lambda>e. case e of Process n c \<Rightarrow> [(n, c)] | _ \<Rightarrow> []) evs)"

subsection \<open>Inputs for the examples\<close>

definition production :: environment where
  "production = \<lparr>host = ''db1.example.org'', port = 27017, db_name = ''shop''\<rparr>"

definition development :: environment where
  "development = \<lparr>host = ''localhost'', port = 27017, db_name = ''shop_dev''\<rparr>"

definition w0 :: world where
  "w0 = \<lparr>trace = [], next_tmp = 0, tmp_dirs = [], files = []\<rparr>"

text \<open>A machine with one backup directory that holds one archive of \<open>1024 ^ 5\<close> bytes.\<close>

definition x_big :: ext where
  "x_big = \<lparr>cwd = ''/srv/app'', dirs = [(''backups'', [''big.dmp.zip''])],
     getmembers = (\<lambda>_. []), find_by_key = Map.empty, process_result = (\<lambda>_. None),
     confirm_answer = True, utcnow = \<lparr>year = 2014, month = 6, day = 18\<rparr>,
     getsize = (\<lambda>_. 1024 ^ 5), dump_result = (\<lambda>_ _. Inr ([], [])),
     extractall_result = None, restore_result = None\<rparr>"

text \<open>Two configurations: the settings template with a local backup store, and without.\<close>

definition cfg_local :: config where
  "cfg_local = \<lparr>migration_directory = None, config_directory = None,
     environments = Some [''production'' \<mapsto> production, ''development'' \<mapsto> development],
     backups = Some (PyDict [''LOCAL'' \<mapsto> [''backup_dir'' \<mapsto> ''backups'']])\<rparr>"

definition cfg_no_backups :: config where
  "cfg_no_backups = \<lparr>migration_directory = None, config_directory = None,
     environments = Some [''production'' \<mapsto> production, ''development'' \<mapsto> development],
     backups = None\<rparr>"

text \<open>An operator who declines.\<close>

definition x_declines :: ext where
  "x_declines = x_big\<lparr>confirm_answer := False\<rparr>"


text \<open>
  A machine with an empty backup directory, where the dump of a database is one directory
  with one file in it.
\<close>

definition x_dump :: ext where
  "x_dump = x_big\<lparr>
     dirs := [(''backups'', [])],
     dump_result := (\<lambda>e temp_dir. Inr ([temp_dir, db_name e], [(''users.bson'', File ''U'')]))\<rparr>"

text \<open>The same machine when \<^verbatim>\<open>mongorestore\<close> fails, and when the archive cannot be unpacked.\<close>

definition x_restore_fails :: ext where
  "x_restore_fails = x_dump\<lparr>restore_result := Some (CollaboratorError ''mongorestore'')\<rparr>"

definition x_extract_fails :: ext where
  "x_extract_fails = x_dump\<lparr>extractall_result := Some (IOError ''No space left on device'')\<rparr>"

text \<open>A store with one archive.\<close>

definition w_archive :: world where
  "w_archive = w0\<lparr>files := [(''backups/shop__2014_06_18.dmp.zip'', [([''users.bson''], ''U'')])]\<rparr>"

text \<open>
  A dump with subdirectories: two databases, each with a collection \<^verbatim>\<open>users\<close>, and a file
  beside them.
\<close>

definition tree_nested :: "(string \<times> node) list" where
  "tree_nested =
     [(''shop'', Dir [(''users.bson'', File ''U'')]),
      (''admin'', Dir [(''users.bson'', File ''V'')]),
      (''oplog.bson'', File ''O'')]"

definition x_nested :: ext where
  "x_nested = x_dump\<lparr>dump_result := (\<lambda>e temp_dir. Inr ([temp_dir], tree_nested))\<rparr>"

section \<open>Properties\<close>

subsection \<open>Evaluation\<close>

lemma str_nat_small: "n < 10 \<Longrightarrow> str_nat n = [digit_char n]"
  by (subst str_nat.simps) simp

lemma str_nat_big: "10 \<le> n \<Longrightarrow> str_nat n = str_nat (n div 10) @ [digit_char (n mod 10)]"
  by (subst str_nat.simps) simp

lemmas io_defs = io_return_def io_raise_def io_bind_def io_seq_def io_when_def emit_def echo_def

subsection \<open>Sizes\<close>

lemma sizeof_loop_units:
  fixes q :: rat
  shows "sizeof_loop units q =
     (if q < 1024 then Some (fmt_3_1f q @ '' bytes'')
      else if q < 1024 ^ 2 then Some (fmt_3_1f (q / 1024) @ '' KB'')
      else if q < 1024 ^ 3 then Some (fmt_3_1f (q / 1024 ^ 2) @ '' MB'')
      else if q < 1024 ^ 4 then Some (fmt_3_1f (q / 1024 ^ 3) @ '' GB'')
      else if q < 1024 ^ 5 then Some (fmt_3_1f (q / 1024 ^ 4) @ '' TB'')
      else None)"
  by (simp add: units_def)

lemma of_nat_less_pow: "((of_nat n :: rat) < 1024 ^ k) = (n < 1024 ^ k)"
  by (metis of_nat_less_iff of_nat_numeral of_nat_power)

text \<open>
  C10. A size below \<open>1024 ^ 5\<close> is formatted: the size divided by \<open>1024 ^ k\<close>, with one
  decimal, and the \<open>k\<close>-th of the units bytes, KB, MB, GB, TB, where \<open>k\<close> is the number of
  times 1024 fits. From \<open>1024 ^ 5\<close> on \<^verbatim>\<open>sizeof_fmt\<close> returns \<^verbatim>\<open>None\<close>, and the listing of
  the backups prints the word \<^verbatim>\<open>None\<close> where the size goes.
\<close>

theorem sizeof_fmt_range:
  "(\<forall>k < 5. (k = 0 \<or> 1024 ^ k \<le> num) \<and> num < 1024 ^ Suc k \<longrightarrow>
      sizeof_fmt num = Some (fmt_3_1f (of_nat num / 1024 ^ k) @ '' '' @ units ! k)) \<and>
   (num < 1024 ^ 5 \<longrightarrow> sizeof_fmt num \<noteq> None) \<and>
   (1024 ^ 5 \<le> num \<longrightarrow> sizeof_fmt num = None) \<and>
   (\<forall>x local_config d item w.
      local_config ''backup_dir'' = Some d \<and> map_of (dirs x) d = Some [item] \<and>
      getsize x (path_join d item) = num \<and> 1024 ^ 5 \<le> num \<longrightarrow>
      list_local_backups x local_config w =
        (Inr (), w\<lparr>trace := trace w @ [Echo (ljust 50 item @ '' None'')]\<rparr>))"
proof (intro conjI allI impI)
  fix k :: nat
  assume k: "k < 5" and r: "(k = 0 \<or> 1024 ^ k \<le> num) \<and> num < 1024 ^ Suc k"
  from k consider "k = 0" | "k = 1" | "k = 2" | "k = 3" | "k = 4" by linarith
  then show "sizeof_fmt num = Some (fmt_3_1f (of_nat num / 1024 ^ k) @ '' '' @ units ! k)"
  proof cases
    case 1 with r show ?thesis
      using of_nat_less_pow [of num 1]
      by (simp add: sizeof_fmt_def sizeof_loop_units units_def)
  next
    case 2 with r show ?thesis
      using of_nat_less_pow [of num 1] of_nat_less_pow [of num 2]
      by (simp add: sizeof_fmt_def sizeof_loop_units units_def)
  next
    case 3 with r show ?thesis
      using of_nat_less_pow [of num 1] of_nat_less_pow [of num 2] of_nat_less_pow [of num 3]
      by (simp add: sizeof_fmt_def sizeof_loop_units units_def)
  next
    case 4 with r show ?thesis
      using of_nat_less_pow [of num 1] of_nat_less_pow [of num 2] of_nat_less_pow [of num 3]
        of_nat_less_pow [of num 4]
      by (simp add: sizeof_fmt_def sizeof_loop_units units_def)
  next
    case 5 with r show ?thesis
      using of_nat_less_pow [of num 1] of_nat_less_pow [of num 2] of_nat_less_pow [of num 3]
        of_nat_less_pow [of num 4] of_nat_less_pow [of num 5]
      by (simp add: sizeof_fmt_def sizeof_loop_units units_def)
  qed
next
  assume "num < 1024 ^ 5"
  then have "(of_nat num :: rat) < 1024 ^ 5" by (simp only: of_nat_less_pow)
  then show "sizeof_fmt num \<noteq> None"
    by (simp add: sizeof_fmt_def sizeof_loop_units)
next
  assume "1024 ^ 5 \<le> num"
  then have "\<not> (of_nat num :: rat) < 1024 ^ 5" by (simp only: of_nat_less_pow not_less)
  then show "sizeof_fmt num = None"
    by (simp add: sizeof_fmt_def sizeof_loop_units)
next
  fix x :: ext and local_config d item w
  assume h: "local_config ''backup_dir'' = Some d \<and> map_of (dirs x) d = Some [item] \<and>
      getsize x (path_join d item) = num \<and> 1024 ^ 5 \<le> num"
  then have "\<not> (of_nat num :: rat) < 1024 ^ 5" by (simp only: of_nat_less_pow not_less)
  then have "sizeof_fmt num = None"
    by (simp add: sizeof_fmt_def sizeof_loop_units)
  with h show "list_local_backups x local_config w =
        (Inr (), w\<lparr>trace := trace w @ [Echo (ljust 50 item @ '' None'')]\<rparr>)"
    by (simp add: list_local_backups_def local_backups_def isdir_def listdir_def io_defs str_opt_def)
qed

theorem sizeof_fmt_range_witness:
  "sizeof_fmt 2048 = Some ''2.0 KB'' \<and> sizeof_fmt 1023 = Some ''1023.0 bytes'' \<and>
   sizeof_fmt (1024 ^ 5 - 1) \<noteq> None \<and> sizeof_fmt (1024 ^ 5) = None \<and>
   list_local_backups x_big [''backup_dir'' \<mapsto> ''backups''] w0 =
     (Inr (), w0\<lparr>trace := [Echo (ljust 50 ''big.dmp.zip'' @ '' None'')]\<rparr>)"
proof -
  have "sizeof_fmt 2048 = Some (fmt_3_1f (of_nat 2048 / 1024 ^ 1) @ '' '' @ units ! 1)"
    using sizeof_fmt_range [of 2048, THEN conjunct1, rule_format, of 1] by simp
  then have a: "sizeof_fmt 2048 = Some ''2.0 KB''"
    by (simp add: units_def fmt_3_1f_def round_half_even_def str_nat_small digit_char_def)
  have "sizeof_fmt 1023 = Some (fmt_3_1f (of_nat 1023 / 1024 ^ 0) @ '' '' @ units ! 0)"
    using sizeof_fmt_range [of 1023, THEN conjunct1, rule_format, of 0] by simp
  then have b: "sizeof_fmt 1023 = Some ''1023.0 bytes''"
    by (simp add: units_def fmt_3_1f_def round_half_even_def str_nat_small str_nat_big
        digit_char_def)
  have c: "sizeof_fmt (1024 ^ 5 - 1) \<noteq> None"
    using sizeof_fmt_range [of "1024 ^ 5 - 1"] by simp
  have d: "sizeof_fmt (1024 ^ 5) = None"
    using sizeof_fmt_range [of "1024 ^ 5"] by simp
  have f: "\<And>x lc dr item w. lc ''backup_dir'' = Some dr \<Longrightarrow>
      map_of (dirs x) dr = Some [item] \<Longrightarrow> getsize x (path_join dr item) = 1024 ^ 5 \<Longrightarrow>
      list_local_backups x lc w =
        (Inr (), w\<lparr>trace := trace w @ [Echo (ljust 50 item @ '' None'')]\<rparr>)"
    using sizeof_fmt_range [of "1024 ^ 5"] by simp
  have e: "list_local_backups x_big [''backup_dir'' \<mapsto> ''backups''] w0 =
     (Inr (), w0\<lparr>trace := [Echo (ljust 50 ''big.dmp.zip'' @ '' None'')]\<rparr>)"
    using f [where x = x_big and lc = "[''backup_dir'' \<mapsto> ''backups'']"
        and dr = "''backups''" and item = "''big.dmp.zip''" and w = w0]
    by (simp add: x_big_def w0_def)
  from a b c d e show ?thesis by blast
qed

subsection \<open>The guards of the commands\<close>

lemma split_on_absent: "c \<notin> set s \<Longrightarrow> split_on c s = [s]"
  by (induction s) auto

lemma split_on_append: "c \<notin> set a \<Longrightarrow> split_on c (a @ c # s) = a # split_on c s"
  by (induction a) auto

lemma split_on_pair:
  "c \<notin> set a \<Longrightarrow> c \<notin> set b \<Longrightarrow> split_on c (a @ c # b) = [a, b]"
  by (simp add: split_on_append split_on_absent)

lemma exit_with_message_run:
  "exit_with_message m w = (Inl SystemExit, w\<lparr>trace := trace w @ [Echo [], Echo m, Echo []]\<rparr>)"
  by (simp add: exit_with_message_def io_defs)

lemma gated_True: "gated True evs"
  by (induction evs) auto

text \<open>
  A name that the settings do not have stops \<^verbatim>\<open>list_migrations\<close>, \<^verbatim>\<open>migrate\<close>, \<^verbatim>\<open>backup\<close>,
  \<^verbatim>\<open>copy_db\<close> and \<^verbatim>\<open>restore\<close> with a message, before anything else is done.
\<close>

lemma lizt_unknown_environment:
  "environments config = Some envs \<Longrightarrow> env_name \<notin> dom envs \<Longrightarrow>
   lizt x config env_name w = exit_with_message ''Environment not described in settings.py'' w"
  by (simp add: lizt_def py_in_def io_defs exit_with_message_run)

lemma migrate_unknown_environment:
  "environments config = Some envs \<Longrightarrow> env_name \<notin> dom envs \<Longrightarrow>
   migrate x config env_name w = exit_with_message ''Environment not described in settings.py'' w"
  by (simp add: migrate_def py_in_def io_defs exit_with_message_run)

lemma backup_unknown_environment:
  "environments config = Some envs \<Longrightarrow> env_name \<notin> dom envs \<Longrightarrow>
   backups config = Some b \<Longrightarrow>
   backup x config env_name w =
     exit_with_message (env_name @ '' is not in settings.  Exiting ...'') w"
  by (simp add: backup_def confirm_environment_def py_in_def io_defs exit_with_message_run)

lemma copy_db_unknown_source:
  "environments config = Some envs \<Longrightarrow> from_db \<notin> dom envs \<Longrightarrow>
   CHR '':'' \<notin> set from_db \<Longrightarrow> CHR '':'' \<notin> set to_db \<Longrightarrow>
   copy_db x config (from_db @ '':'' @ to_db) w =
     exit_with_message (''Environemnts does not have a specification for '' @ from_db) w"
  by (simp add: copy_db_def split_on_pair py_in_def io_defs exit_with_message_run)

lemma copy_db_unknown_destination:
  "environments config = Some envs \<Longrightarrow> from_db \<in> dom envs \<Longrightarrow> to_db \<notin> dom envs \<Longrightarrow>
   CHR '':'' \<notin> set from_db \<Longrightarrow> CHR '':'' \<notin> set to_db \<Longrightarrow>
   copy_db x config (from_db @ '':'' @ to_db) w =
     exit_with_message (''Environemnts does not have a specification for '' @ to_db) w"
  by (simp add: copy_db_def split_on_pair py_in_def io_defs exit_with_message_run)

lemma restore_unknown_destination:
  "environments config = Some envs \<Longrightarrow> to_db \<notin> dom envs \<Longrightarrow>
   CHR '':'' \<notin> set backup_name \<Longrightarrow> CHR '':'' \<notin> set to_db \<Longrightarrow>
   restore x config (backup_name @ '':'' @ to_db) w =
     exit_with_message (''Environemnts does not have a specification for '' @ to_db) w"
  by (simp add: restore_def split_on_pair py_in_def io_defs exit_with_message_run)

text \<open>
  C3. \<^verbatim>\<open>drop_db\<close> has no such guard: it indexes \<^verbatim>\<open>config.environments\<close> with the name it
  was given, and a name that is not there is a \<^verbatim>\<open>KeyError\<close> that nothing handles, with no
  message.
\<close>

theorem drop_db_unknown_environment:
  "drop_db x_declines cfg_local ''staging'' w0 = (Inl (KeyError ''staging''), w0)"
  by (simp add: drop_db_def cfg_local_def py_getitem_def io_defs)

subsection \<open>The confirmation of the operator\<close>

text \<open>
  \<^verbatim>\<open>copy_db\<close> and \<^verbatim>\<open>restore\<close> ask. After a no they stop and have changed nothing; on every
  path the copy or the restore comes after a yes.
\<close>

lemma copy_db_declined:
  "\<not> confirm_answer x \<Longrightarrow> copy_db x config from_to w = (r, w') \<Longrightarrow>
   tmp_dirs w' = tmp_dirs w \<and> files w' = files w \<and>
   (\<forall>e \<in> set (new_events w w'). \<not> destructive e)"
  apply (simp add: copy_db_def)
  apply (auto simp: py_in_def py_getitem_def confirm_def io_defs exit_with_message_run
      destructive_def new_events_def split: list.splits option.splits if_splits)
  done

lemma copy_db_gated:
  "copy_db x config from_to w = (r, w') \<Longrightarrow> gated False (new_events w w')"
  apply (simp add: copy_db_def)
  apply (auto simp: py_in_def py_getitem_def confirm_def io_defs exit_with_message_run
      destructive_def confirmed_def new_events_def split: list.splits option.splits if_splits)
  done

lemma restore_declined:
  "\<not> confirm_answer x \<Longrightarrow> restore x config from_to w = (r, w') \<Longrightarrow>
   tmp_dirs w' = tmp_dirs w \<and> files w' = files w \<and>
   (\<forall>e \<in> set (new_events w w'). \<not> destructive e)"
  apply (simp add: restore_def)
  apply (auto simp: py_in_def py_getitem_def confirm_def io_defs exit_with_message_run
      backups_fn_def local_backups_def destructive_def new_events_def
      split: list.splits option.splits if_splits backups_value.splits)
  done

lemma restore_db_events:
  "restore_db x zip_path e w = (r, w') \<Longrightarrow>
   trace w' = trace w \<or>
   (\<exists>t c rest. trace w' = trace w @ Restore_mongo_db t c e # rest \<and>
      (\<forall>ev \<in> set rest. \<not> destructive ev))"
  apply (simp add: restore_db_def temp_directory_def)
  apply (auto simp: io_defs open_zip_def mkdtemp_def rmtree_def zip_extractall_def
      restore_mongo_db_def destructive_def Let_def split: option.splits)
  done

lemma restore_gated:
  "restore x config from_to w = (r, w') \<Longrightarrow> gated False (new_events w w')"
  apply (simp add: restore_def)
  apply (auto simp: py_in_def py_getitem_def confirm_def io_defs exit_with_message_run
      backups_fn_def local_backups_def destructive_def confirmed_def new_events_def gated_True
      split: list.splits option.splits if_splits backups_value.splits
      dest!: restore_db_events)
  done

text \<open>
  C2. \<^verbatim>\<open>drop_db\<close> does not ask: with an operator who would decline, the database of the
  named environment is dropped all the same, and no confirmation comes before the drop.
\<close>

theorem drop_db_without_confirmation:
  "drop_db x_declines cfg_local ''production'' w0 =
     (Inr (), w0\<lparr>trace := [Drop_mongo_db production]\<rparr>) \<and>
   \<not> gated False (new_events w0 (snd (drop_db x_declines cfg_local ''production'' w0)))"
  by (simp add: drop_db_def cfg_local_def py_getitem_def io_defs w0_def new_events_def
      destructive_def)

subsection \<open>A configuration without \<^verbatim>\<open>BACKUPS\<close>\<close>

text \<open>
  C9. When the settings define no \<^verbatim>\<open>BACKUPS\<close>, the configuration object has no attribute
  \<^verbatim>\<open>backups\<close>. \<^verbatim>\<open>backup\<close>, which asks \<^verbatim>\<open>hasattr\<close>, prints
  \<^verbatim>\<open>BACKUPS not configured, exiting\<close> and exits, whatever the environment. \<^verbatim>\<open>list_backups\<close>
  reads the attribute and fails with an \<^verbatim>\<open>AttributeError\<close> that nothing handles, and so does
  \<^verbatim>\<open>restore\<close> once its argument \<^verbatim>\<open>archive:destination\<close> has passed the tests that come
  first (one colon, a destination of the settings).
\<close>

theorem backups_attribute_missing:
  "backups config = None \<Longrightarrow>
     backup x config env_name w =
       (Inl SystemExit,
        w\<lparr>trace := trace w @ [Echo [], Echo ''BACKUPS not configured, exiting'', Echo []]\<rparr>) \<and>
     list_backups x config w = (Inl (AttributeError ''backups''), w) \<and>
     (CHR '':'' \<notin> set backup_name \<and> CHR '':'' \<notin> set to_db \<and>
      environments config = Some envs \<and> to_db \<in> dom envs \<longrightarrow>
      restore x config (backup_name @ '':'' @ to_db) w = (Inl (AttributeError ''backups''), w))"
proof (intro conjI impI)
  assume a: "backups config = None"
  show "backup x config env_name w =
       (Inl SystemExit,
        w\<lparr>trace := trace w @ [Echo [], Echo ''BACKUPS not configured, exiting'', Echo []]\<rparr>)"
    using a by (simp add: backup_def io_seq_def io_bind_def io_when_def exit_with_message_run)
  show "list_backups x config w = (Inl (AttributeError ''backups''), w)"
    using a by (simp add: list_backups_def io_raise_def)
  assume "CHR '':'' \<notin> set backup_name \<and> CHR '':'' \<notin> set to_db \<and>
      environments config = Some envs \<and> to_db \<in> dom envs"
  then show "restore x config (backup_name @ '':'' @ to_db) w = (Inl (AttributeError ''backups''), w)"
    using a
    by (simp add: restore_def split_on_pair py_in_def backups_fn_def io_seq_def io_bind_def
        io_when_def io_return_def io_raise_def)
qed

theorem backups_attribute_missing_witness:
  "backups cfg_no_backups = None \<and>
   backup x_big cfg_no_backups ''production'' w0 =
     (Inl SystemExit,
      w0\<lparr>trace := [Echo [], Echo ''BACKUPS not configured, exiting'', Echo []]\<rparr>) \<and>
   list_backups x_big cfg_no_backups w0 = (Inl (AttributeError ''backups''), w0) \<and>
   restore x_big cfg_no_backups ''big.dmp.zip:production'' w0 =
     (Inl (AttributeError ''backups''), w0)"
proof -
  have n: "backups cfg_no_backups = None"
    by (simp add: cfg_no_backups_def)
  have e: "environments cfg_no_backups =
      Some [''production'' \<mapsto> production, ''development'' \<mapsto> development]"
    by (simp add: cfg_no_backups_def)
  note t = backups_attribute_missing [OF n, of x_big "''production''" w0 "''big.dmp.zip''"
      "''production''" "[''production'' \<mapsto> production, ''development'' \<mapsto> development]"]
  from t e n show ?thesis
    by (simp add: w0_def)
qed

subsection \<open>Migration discovery and the runner\<close>

lemma find_migrations_run:
  "find_migrations x config w =
     (Inr (ordered x config), w\<lparr>trace := trace w @ [Echo (''fm 1 cwd: '' @ cwd x)]\<rparr>)"
  by (simp add: find_migrations_def io_defs)






lemma processed_append: "processed (a @ b) = processed a @ processed b"
  by (simp add: processed_def)










subsection \<open>A migration directory that does not exist\<close>

lemma ordered_absent:
  "map_of (dirs x) (str_opt (migration_directory config)) = None \<Longrightarrow> ordered x config = []"
  by (simp add: ordered_def glob_migrations_def)

text \<open>
  C8. When the migration directory does not exist, \<^verbatim>\<open>glob\<close> has no match:
  \<^verbatim>\<open>find_migrations\<close> returns the empty dictionary and reports nothing. \<^verbatim>\<open>migrate\<close> then
  prints \<^verbatim>\<open>No migrations exist\<close> and \<^verbatim>\<open>list_migrations\<close> prints \<^verbatim>\<open>No pending migrations\<close>;
  both return normally.
\<close>

theorem absent_directory_is_empty:
  "map_of (dirs x) (str_opt (migration_directory config)) = None \<Longrightarrow>
     find_migrations x config w =
       (Inr [], w\<lparr>trace := trace w @ [Echo (''fm 1 cwd: '' @ cwd x)]\<rparr>) \<and>
     (environments config = Some envs \<and> envs env_name = Some e \<longrightarrow>
        migrate x config env_name w =
          (Inr (), w\<lparr>trace := trace w @
             [Echo (''fm 1 cwd: '' @ cwd x), Echo ''No migrations exist'']\<rparr>) \<and>
        lizt x config env_name w =
          (Inr (), w\<lparr>trace := trace w @
             [Echo (''fm 1 cwd: '' @ cwd x), Connect e, Echo ''No pending migrations'']\<rparr>))"
  by (simp add: find_migrations_run ordered_absent migrate_def lizt_def py_in_def py_getitem_def
      establish_datastore_connection_def io_defs domI)

theorem absent_directory_counterexample:
  "find_migrations x_big cfg_local w0 = (Inr [], w0\<lparr>trace := [Echo ''fm 1 cwd: /srv/app'']\<rparr>) \<and>
   migrate x_big cfg_local ''production'' w0 =
     (Inr (), w0\<lparr>trace := [Echo ''fm 1 cwd: /srv/app'', Echo ''No migrations exist'']\<rparr>) \<and>
   lizt x_big cfg_local ''production'' w0 =
     (Inr (), w0\<lparr>trace := [Echo ''fm 1 cwd: /srv/app'', Connect production,
        Echo ''No pending migrations'']\<rparr>)"
  by (simp add: find_migrations_run ordered_def glob_migrations_def str_opt_def migrate_def lizt_def
      py_in_def py_getitem_def establish_datastore_connection_def io_defs x_big_def cfg_local_def
      w0_def)

theorem absent_directory_is_empty_witness:
  "map_of (dirs x_big) (str_opt (migration_directory cfg_local)) = None \<and>
   find_migrations x_big cfg_local w0 = (Inr [], w0\<lparr>trace := [Echo ''fm 1 cwd: /srv/app'']\<rparr>) \<and>
   migrate x_big cfg_local ''development'' w0 =
     (Inr (), w0\<lparr>trace := [Echo ''fm 1 cwd: /srv/app'', Echo ''No migrations exist'']\<rparr>) \<and>
   lizt x_big cfg_local ''development'' w0 =
     (Inr (), w0\<lparr>trace := [Echo ''fm 1 cwd: /srv/app'', Connect development,
        Echo ''No pending migrations'']\<rparr>)"
proof -
  have a: "map_of (dirs x_big) (str_opt (migration_directory cfg_local)) = None"
    by (simp add: x_big_def cfg_local_def str_opt_def)
  have e: "environments cfg_local =
      Some [''production'' \<mapsto> production, ''development'' \<mapsto> development]"
    by (simp add: cfg_local_def)
  have c: "cwd x_big = ''/srv/app''" by (simp add: x_big_def)
  note t = absent_directory_is_empty [OF a, of w0
      "[''production'' \<mapsto> production, ''development'' \<mapsto> development]"
      "''development''" development]
  from t a e c show ?thesis by (simp add: w0_def)
qed

subsection \<open>The round trip through an archive\<close>

lemma walk_prefix:
  "walk (p @ q) es = map (\<lambda>(r, d, f). (p @ r, d, f)) (walk q es)"
  "walk_subdirs (p @ q) es = map (\<lambda>(r, d, f). (p @ r, d, f)) (walk_subdirs q es)"
  by (induction q es and q es rule: walk_walk_subdirs.induct) simp_all

lemma commonprefix_append: "commonprefix r (r @ s) = r"
  by (induction r) auto

lemma relpath_join: "relpath (r @ [f]) r = [f]"
  by (simp add: relpath_def commonprefix_append)

text \<open>\<^verbatim>\<open>zipdir\<close> writes every file under its base name, whatever directory it is in.\<close>

lemma zipdir_base_names:
  "zipdir p tree = map (\<lambda>(q, b). ([last q], b)) (files_under tree)"
proof -
  have "walk p tree = map (\<lambda>(r, d, f). (p @ r, d, f)) (walk [] tree)"
    using walk_prefix(1) [of p "[]" tree] by simp
  then show ?thesis
    by (simp add: zipdir_def files_under_def relpath_join map_concat comp_def case_prod_unfold)
qed

lemma extractall_fold:
  "distinct (map fst zs) \<Longrightarrow> set (map fst zs) \<inter> set (map fst acc) = {} \<Longrightarrow>
   foldl (\<lambda>fs (arcname, b). AList.update arcname b fs) acc zs = acc @ zs"
proof (induction zs arbitrary: acc)
  case Nil
  then show ?case by simp
next
  case (Cons z zs)
  obtain k v where z: "z = (k, v)" by (cases z)
  with Cons.prems have "k \<notin> fst ` set acc" by auto
  then have u: "AList.update k v acc = acc @ [(k, v)]"
    by (induction acc) auto
  from Cons.prems z have "foldl (\<lambda>fs (arcname, b). AList.update arcname b fs) (acc @ [(k, v)]) zs
     = (acc @ [(k, v)]) @ zs"
    by (intro Cons.IH) auto
  with u z show ?case by simp
qed

lemma extractall_distinct: "distinct (map fst z) \<Longrightarrow> extractall z = z"
  using extractall_fold [of z "[]"] by (simp add: extractall_def)

text \<open>A dump without subdirectories comes back as it was.\<close>

lemma flat_round_trip:
  "dirnames_of tree = [] \<Longrightarrow> distinct (map fst tree) \<Longrightarrow>
   extractall (zipdir p tree) = files_under tree"
proof -
  assume flat: "dirnames_of tree = []" and d: "distinct (map fst tree)"
  from flat have s: "walk_subdirs [] tree = []"
    by (induction tree rule: dirnames_of.induct) auto
  from flat have f: "map fst (files_of tree) = map fst tree"
    by (induction tree rule: dirnames_of.induct) auto
  from s have fu: "files_under tree = map (\<lambda>(n, b). ([n], b)) (files_of tree)"
    by (simp add: files_under_def)
  then have z: "zipdir p tree = map (\<lambda>(n, b). ([n], b)) (files_of tree)"
    by (simp add: zipdir_base_names comp_def case_prod_unfold)
  have "map fst (map (\<lambda>(n, b). ([n], b)) (files_of tree)) = map (\<lambda>n. [n]) (map fst (files_of tree))"
    by (simp add: comp_def case_prod_unfold)
  with f d have "distinct (map fst (map (\<lambda>(n, b). ([n], b)) (files_of tree)))"
    by (simp add: distinct_map inj_on_def)
  with z fu show ?thesis by (simp add: extractall_distinct)
qed

lemma strftime_example: "strftime_Y_m_d \<lparr>year = 2014, month = 6, day = 18\<rparr> = ''2014_06_18''"
  by (simp add: strftime_Y_m_d_def zfill_def str_nat_small str_nat_big digit_char_def)

lemma nested_backup:
  "backup_localy x_nested cfg_local ''production'' [''backup_dir'' \<mapsto> ''backups''] w0 =
    (Inr (), w0\<lparr>trace := [Echo_envs, Dump_db production ''/tmp/tmp0'', Echo ''Zipping File'',
        Echo ''Moving MongoDump.zip file into: backups''],
      next_tmp := 1, tmp_dirs := [''/tmp/tmp0''],
      files := [(''backups/shop__2014_06_18.dmp.zip'',
         [([''oplog.bson''], ''O''), ([''users.bson''], ''U''), ([''users.bson''], ''V'')])]\<rparr>)"
  by (simp add: backup_localy_def isdir_def x_nested_def x_dump_def x_big_def cfg_local_def w0_def
      io_defs mkdtemp_def py_getitem_def dump_db_def write_file_def move_def
      generate_unique_name_def name_attempt_def strftime_example path_join_def path_exists_def
      zipdir_def relpath_def tree_nested_def production_def str_nat_small digit_char_def Let_def)

lemma nested_restore:
  "restore_db x_nested ''backups/shop__2014_06_18.dmp.zip'' development
     (snd (backup_localy x_nested cfg_local ''production'' [''backup_dir'' \<mapsto> ''backups''] w0)) =
   (Inr (), w0\<lparr>trace := [Echo_envs, Dump_db production ''/tmp/tmp0'', Echo ''Zipping File'',
        Echo ''Moving MongoDump.zip file into: backups'',
        Restore_mongo_db ''/tmp/tmp1'' [([''oplog.bson''], ''O''), ([''users.bson''], ''V'')]
          development,
        Echo [], Echo ''Rock and roll that seemed to go well -- Nice work'', Echo []],
      next_tmp := 2, tmp_dirs := [''/tmp/tmp0''],
      files := [(''backups/shop__2014_06_18.dmp.zip'',
         [([''oplog.bson''], ''O''), ([''users.bson''], ''U''), ([''users.bson''], ''V'')])]\<rparr>)"
  by (simp only: nested_backup snd_conv)
    (simp add: restore_db_def temp_directory_def io_defs open_zip_def mkdtemp_def
      rmtree_def zip_extractall_def restore_mongo_db_def extractall_def x_nested_def x_dump_def
      x_big_def w0_def str_nat_small digit_char_def Let_def)

text \<open>
  C1. A dump with subdirectories does not come back: the archive holds the base names of the
  files, so \<^verbatim>\<open>shop/users.bson\<close> and \<^verbatim>\<open>admin/users.bson\<close> are both stored as
  \<^verbatim>\<open>users.bson\<close>, and unpacking leaves one file \<^verbatim>\<open>users.bson\<close>, with the bytes of the
  second, at the top of the directory that is restored.
\<close>

theorem zipdir_flattens:
  "files_under tree_nested =
     [([''oplog.bson''], ''O''), ([''shop'', ''users.bson''], ''U''),
      ([''admin'', ''users.bson''], ''V'')] \<and>
   zipdir [''/tmp/tmp0''] tree_nested =
     [([''oplog.bson''], ''O''), ([''users.bson''], ''U''), ([''users.bson''], ''V'')] \<and>
   extractall (zipdir [''/tmp/tmp0''] tree_nested) =
     [([''oplog.bson''], ''O''), ([''users.bson''], ''V'')] \<and>
   restore_db x_nested ''backups/shop__2014_06_18.dmp.zip'' development
     (snd (backup_localy x_nested cfg_local ''production'' [''backup_dir'' \<mapsto> ''backups''] w0)) =
   (Inr (), w0\<lparr>trace := [Echo_envs, Dump_db production ''/tmp/tmp0'', Echo ''Zipping File'',
        Echo ''Moving MongoDump.zip file into: backups'',
        Restore_mongo_db ''/tmp/tmp1'' [([''oplog.bson''], ''O''), ([''users.bson''], ''V'')]
          development,
        Echo [], Echo ''Rock and roll that seemed to go well -- Nice work'', Echo []],
      next_tmp := 2, tmp_dirs := [''/tmp/tmp0''],
      files := [(''backups/shop__2014_06_18.dmp.zip'',
         [([''oplog.bson''], ''O''), ([''users.bson''], ''U''), ([''users.bson''], ''V'')])]\<rparr>)"
proof (intro conjI)
  show "files_under tree_nested =
     [([''oplog.bson''], ''O''), ([''shop'', ''users.bson''], ''U''),
      ([''admin'', ''users.bson''], ''V'')]"
    by (simp add: files_under_def tree_nested_def)
  show "zipdir [''/tmp/tmp0''] tree_nested =
     [([''oplog.bson''], ''O''), ([''users.bson''], ''U''), ([''users.bson''], ''V'')]"
    by (simp add: zipdir_def tree_nested_def relpath_def)
  show "extractall (zipdir [''/tmp/tmp0''] tree_nested) =
     [([''oplog.bson''], ''O''), ([''users.bson''], ''V'')]"
    by (simp add: zipdir_def extractall_def tree_nested_def relpath_def)
qed (rule nested_restore)

subsection \<open>Temporary directories\<close>

text \<open>
  \<^verbatim>\<open>backup_localy\<close> never removes the directory it made: once \<^verbatim>\<open>mkdtemp\<close> has run, the
  directory is there when the function returns or raises. \<^verbatim>\<open>restore_db\<close> removes its
  directory after a restore that went well, and leaves it when unpacking or restoring raises.
\<close>

lemma backup_localy_keeps_temp_dir:
  "local_settings ''backup_dir'' = Some d \<Longrightarrow> isdir x d \<Longrightarrow>
   backup_localy x config env_name local_settings w = (r, w') \<Longrightarrow>
   tmp_dirs w' = (''/tmp/tmp'' @ str_nat (next_tmp w)) # tmp_dirs w"
  apply (simp add: backup_localy_def)
  apply (auto simp: io_defs mkdtemp_def py_getitem_def dump_db_def write_file_def move_def Let_def
      split: option.splits sum.splits prod.splits if_splits)
  done

lemma restore_db_failure_keeps_temp_dir:
  "map_of (files w) zip_path = Some z \<Longrightarrow>
   extractall_result x \<noteq> None \<or> restore_result x \<noteq> None \<Longrightarrow>
   restore_db x zip_path e w = (r, w') \<Longrightarrow>
   r \<noteq> Inr () \<and> tmp_dirs w' = (''/tmp/tmp'' @ str_nat (next_tmp w)) # tmp_dirs w"
  apply (simp add: restore_db_def temp_directory_def)
  apply (auto simp: io_defs open_zip_def mkdtemp_def rmtree_def zip_extractall_def
      restore_mongo_db_def Let_def split: option.splits)
  done

lemma restore_db_success_removes_temp_dir:
  "map_of (files w) zip_path = Some z \<Longrightarrow> extractall_result x = None \<Longrightarrow>
   restore_result x = None \<Longrightarrow> restore_db x zip_path e w = (r, w') \<Longrightarrow>
   r = Inr () \<and> tmp_dirs w' = removeAll (''/tmp/tmp'' @ str_nat (next_tmp w)) (tmp_dirs w)"
  apply (simp add: restore_db_def temp_directory_def)
  apply (auto simp: io_defs open_zip_def mkdtemp_def rmtree_def zip_extractall_def
      restore_mongo_db_def Let_def split: option.splits)
  done

text \<open>
  C4. A backup that succeeds leaves its temporary directory behind, and so does a restore
  whose \<^verbatim>\<open>mongorestore\<close> fails or whose archive cannot be unpacked.
\<close>

theorem temp_directory_left_behind:
  "fst (backup_localy x_dump cfg_local ''production'' [''backup_dir'' \<mapsto> ''backups''] w0) = Inr () \<and>
   tmp_dirs (snd (backup_localy x_dump cfg_local ''production'' [''backup_dir'' \<mapsto> ''backups''] w0)) =
     [''/tmp/tmp0''] \<and>
   restore_db x_restore_fails ''backups/shop__2014_06_18.dmp.zip'' development w_archive =
     (Inl (CollaboratorError ''mongorestore''),
      w_archive\<lparr>trace := [Restore_mongo_db ''/tmp/tmp0'' [([''users.bson''], ''U'')] development],
        next_tmp := 1, tmp_dirs := [''/tmp/tmp0'']\<rparr>) \<and>
   restore_db x_extract_fails ''backups/shop__2014_06_18.dmp.zip'' development w_archive =
     (Inl (IOError ''No space left on device''),
      w_archive\<lparr>next_tmp := 1, tmp_dirs := [''/tmp/tmp0'']\<rparr>)"
proof (intro conjI)
  have b: "backup_localy x_dump cfg_local ''production'' [''backup_dir'' \<mapsto> ''backups''] w0 =
    (Inr (), w0\<lparr>trace := [Echo_envs, Dump_db production ''/tmp/tmp0'', Echo ''Zipping File'',
        Echo ''Moving MongoDump.zip file into: backups''],
      next_tmp := 1, tmp_dirs := [''/tmp/tmp0''],
      files := [(''backups/shop__2014_06_18.dmp.zip'', [([''users.bson''], ''U'')])]\<rparr>)"
    by (simp add: backup_localy_def isdir_def x_dump_def x_big_def cfg_local_def w0_def io_defs
        mkdtemp_def py_getitem_def dump_db_def write_file_def move_def generate_unique_name_def
        name_attempt_def strftime_example path_join_def path_exists_def zipdir_def relpath_def
        production_def str_nat_small digit_char_def Let_def)
  from b show "fst (backup_localy x_dump cfg_local ''production'' [''backup_dir'' \<mapsto> ''backups''] w0) = Inr ()"
    by simp
  from b show "tmp_dirs (snd (backup_localy x_dump cfg_local ''production''
      [''backup_dir'' \<mapsto> ''backups''] w0)) = [''/tmp/tmp0'']"
    by simp
  show "restore_db x_restore_fails ''backups/shop__2014_06_18.dmp.zip'' development w_archive =
     (Inl (CollaboratorError ''mongorestore''),
      w_archive\<lparr>trace := [Restore_mongo_db ''/tmp/tmp0'' [([''users.bson''], ''U'')] development],
        next_tmp := 1, tmp_dirs := [''/tmp/tmp0'']\<rparr>)"
    by (simp add: restore_db_def temp_directory_def io_defs open_zip_def mkdtemp_def rmtree_def
        zip_extractall_def restore_mongo_db_def extractall_def x_restore_fails_def x_dump_def
        x_big_def w_archive_def w0_def str_nat_small digit_char_def Let_def)
  show "restore_db x_extract_fails ''backups/shop__2014_06_18.dmp.zip'' development w_archive =
     (Inl (IOError ''No space left on device''),
      w_archive\<lparr>next_tmp := 1, tmp_dirs := [''/tmp/tmp0'']\<rparr>)"
    by (simp add: restore_db_def temp_directory_def io_defs open_zip_def mkdtemp_def rmtree_def
        zip_extractall_def restore_mongo_db_def extractall_def x_extract_fails_def x_dump_def
        x_big_def w_archive_def w0_def str_nat_small digit_char_def Let_def)
qed

subsection \<open>Archive names\<close>

text \<open>The decimal digits of a number determine the number.\<close>

lemma str_nat_nonempty: "str_nat n \<noteq> []"
  by (subst str_nat.simps) simp

lemma last_str_nat: "last (str_nat n) = digit_char (n mod 10)"
  by (subst str_nat.simps) simp

lemma butlast_str_nat: "10 \<le> n \<Longrightarrow> butlast (str_nat n) = str_nat (n div 10)"
  by (subst str_nat.simps) simp

lemma length_str_nat_small: "(length (str_nat n) = 1) = (n < 10)"
proof (cases "n < 10")
  case True
  then show ?thesis by (simp add: str_nat_small)
next
  case False
  then have "length (str_nat n) = Suc (length (str_nat (n div 10)))"
    by (subst str_nat.simps) simp
  moreover have "length (str_nat (n div 10)) \<noteq> 0"
    using str_nat_nonempty [of "n div 10"] by simp
  ultimately show ?thesis using False by simp
qed

lemma digit_char_code: "d < 10 \<Longrightarrow> (of_char (digit_char d) :: nat) = 48 + d"
proof -
  have "\<forall>d<10. (of_char (digit_char d) :: nat) = 48 + d"
    by (simp add: eval_nat_numeral All_less_Suc digit_char_def)
  then show "d < 10 \<Longrightarrow> (of_char (digit_char d) :: nat) = 48 + d" by blast
qed

lemma digit_char_inj:
  assumes "a < 10" "b < 10" "digit_char a = digit_char b"
  shows "a = b"
proof -
  from assms(3) have "(of_char (digit_char a) :: nat) = of_char (digit_char b)" by (rule arg_cong)
  then have "48 + a = 48 + b"
    by (simp only: digit_char_code [OF assms(1)] digit_char_code [OF assms(2)])
  then show ?thesis by simp
qed

lemma str_nat_inj: "str_nat a = str_nat b \<Longrightarrow> a = b"
proof (induction a arbitrary: b rule: str_nat.induct)
  case (1 n)
  show ?case
  proof (cases "n < 10")
    case True
    from "1.prems" str_nat_small [OF True] have eq: "str_nat b = [digit_char n]" by simp
    then have "length (str_nat b) = 1" by simp
    then have b: "b < 10" by (simp only: length_str_nat_small)
    from eq str_nat_small [OF b] have "digit_char n = digit_char b" by simp
    with True b show ?thesis by (rule digit_char_inj)
  next
    case False
    then have "length (str_nat n) \<noteq> 1" by (simp only: length_str_nat_small) simp
    with "1.prems" have b: "\<not> b < 10" by (simp only: length_str_nat_small [symmetric]) simp
    from "1.prems" have "butlast (str_nat n) = butlast (str_nat b)" "last (str_nat n) = last (str_nat b)"
      by simp_all
    with False b have e: "str_nat (n div 10) = str_nat (b div 10)"
      and l: "digit_char (n mod 10) = digit_char (b mod 10)"
      by (simp_all add: butlast_str_nat last_str_nat)
    from "1.IH" [OF False e] have "n div 10 = b div 10" .
    moreover from l have "n mod 10 = b mod 10" by (intro digit_char_inj) simp_all
    ultimately show ?thesis by (metis div_mult_mod_eq)
  qed
qed


lemma path_join_shape:
  "\<exists>pre. \<forall>s. path_join dir (db @ ''__'' @ s) = pre @ db @ ''__'' @ s"
proof (cases "db \<noteq> [] \<and> hd db = CHR ''/''")
  case True
  then have "\<forall>s. path_join dir (db @ ''__'' @ s) = [] @ db @ ''__'' @ s"
    by (simp add: path_join_def)
  then show ?thesis by blast
next
  case False
  then have h: "hd (db @ ''__'' @ s) \<noteq> CHR ''/''" for s
    by (cases db) auto
  show ?thesis
  proof (cases "dir = [] \<or> last dir = CHR ''/''")
    case True
    with h have "\<forall>s. path_join dir (db @ ''__'' @ s) = dir @ db @ ''__'' @ s"
      by (simp add: path_join_def)
    then show ?thesis by blast
  next
    case False
    with h have "\<forall>s. path_join dir (db @ ''__'' @ s) = (dir @ ''/'') @ db @ ''__'' @ s"
      by (simp add: path_join_def)
    then show ?thesis by blast
  qed
qed

lemma counter_path_inj:
  "path_join dir (name_attempt_counter e d a) = path_join dir (name_attempt_counter e d b) \<Longrightarrow>
   a = b"
proof -
  obtain pre where p: "\<And>s. path_join dir (db_name e @ ''__'' @ s) = pre @ db_name e @ ''__'' @ s"
    using path_join_shape [of dir "db_name e"] by blast
  assume "path_join dir (name_attempt_counter e d a) = path_join dir (name_attempt_counter e d b)"
  then have "str_nat a = str_nat b"
    using p [of "strftime_Y_m_d d @ ''_'' @ str_nat a @ ''.dmp.zip''"]
      p [of "strftime_Y_m_d d @ ''_'' @ str_nat b @ ''.dmp.zip''"]
    by (simp add: name_attempt_counter_def)
  then show ?thesis by (rule str_nat_inj)
qed

lemma loop_returns:
  "c < k \<Longrightarrow> \<not> pe (path_join dir (name_attempt_counter e d k)) \<Longrightarrow>
   (\<forall>j. c < j \<and> j < k \<longrightarrow> pe (path_join dir (name_attempt_counter e d j))) \<Longrightarrow>
   unique_name_loop pe dir e d c = Some (path_join dir (name_attempt_counter e d k))"
proof (induction "k - c" arbitrary: c)
  case 0
  then show ?case by simp
next
  case (Suc n)
  show ?case
  proof (cases "Suc c = k")
    case True
    with Suc.prems show ?thesis
      by (subst unique_name_loop.simps) simp
  next
    case False
    with Suc.prems have lt: "Suc c < k" by simp
    with Suc.prems have ex: "pe (path_join dir (name_attempt_counter e d (Suc c)))" by simp
    from Suc.hyps(2) have n: "n = k - Suc c" by simp
    from Suc.prems have "\<forall>j. Suc c < j \<and> j < k \<longrightarrow> pe (path_join dir (name_attempt_counter e d j))"
      by simp
    with Suc.hyps(1) [OF n lt Suc.prems(2)]
    have "unique_name_loop pe dir e d (Suc c) = Some (path_join dir (name_attempt_counter e d k))"
      by simp
    with ex show ?thesis
      by (subst unique_name_loop.simps) simp
  qed
qed

lemma free_counter:
  assumes "finite {p. pe p}"
  shows "\<exists>k>c. \<not> pe (path_join dir (name_attempt_counter e d k)) \<and>
     (\<forall>j. c < j \<and> j < k \<longrightarrow> pe (path_join dir (name_attempt_counter e d j)))"
proof -
  let ?P = "\<lambda>j. path_join dir (name_attempt_counter e d j)"
  have inj: "inj ?P" by (rule injI) (rule counter_path_inj)
  have "finite (?P -` {p. pe p})" using assms inj by (rule finite_vimageI)
  then have fin: "finite {j. pe (?P j)}" by (simp add: vimage_def)
  have "\<exists>k>c. \<not> pe (?P k)"
  proof (rule ccontr)
    assume "\<not> (\<exists>k>c. \<not> pe (?P k))"
    then have "{j. c < j} \<subseteq> {j. pe (?P j)}" by auto
    with fin have "finite {j. c < j}" by (rule rev_finite_subset)
    then show False using infinite_Ioi [of c] by (simp add: greaterThan_def)
  qed
  then obtain k0 where k0: "c < k0 \<and> \<not> pe (?P k0)" by blast
  define k where "k = (LEAST k. c < k \<and> \<not> pe (?P k))"
  from k0 have a: "c < k \<and> \<not> pe (?P k)" unfolding k_def by (rule LeastI)
  have "\<forall>j. c < j \<and> j < k \<longrightarrow> pe (?P j)"
  proof (intro allI impI)
    fix j assume j: "c < j \<and> j < k"
    then have "\<not> (c < j \<and> \<not> pe (?P j))" unfolding k_def by (auto dest: not_less_Least)
    with j show "pe (?P j)" by simp
  qed
  with a show ?thesis by blast
qed


lemma finite_path_exists: "finite {p. path_exists x w p}"
proof -
  have "{p. path_exists x w p} = set (map fst (files w)) \<union> set (tmp_dirs w) \<union> set (map fst (dirs x))"
    by (auto simp: path_exists_def)
  then show ?thesis by simp
qed

lemma generate_unique_name_cases:
  assumes "finite {p. pe p}"
  shows "(\<not> pe (path_join dir (name_attempt e d)) \<longrightarrow>
           generate_unique_name pe dir e d = Some (path_join dir (name_attempt e d))) \<and>
         (pe (path_join dir (name_attempt e d)) \<longrightarrow>
           (\<exists>k\<ge>2. generate_unique_name pe dir e d =
                    Some (path_join dir (name_attempt_counter e d k)) \<and>
                  \<not> pe (path_join dir (name_attempt_counter e d k)) \<and>
                  (\<forall>j. 2 \<le> j \<and> j < k \<longrightarrow> pe (path_join dir (name_attempt_counter e d j)))))"
proof (intro conjI impI)
  assume "\<not> pe (path_join dir (name_attempt e d))"
  then show "generate_unique_name pe dir e d = Some (path_join dir (name_attempt e d))"
    by (simp add: generate_unique_name_def)
next
  assume ex: "pe (path_join dir (name_attempt e d))"
  from free_counter [OF assms, of 1 dir e d]
  obtain k where k: "1 < k" "\<not> pe (path_join dir (name_attempt_counter e d k))"
    "\<forall>j. 1 < j \<and> j < k \<longrightarrow> pe (path_join dir (name_attempt_counter e d j))"
    by blast
  from loop_returns [OF k(1) k(2) k(3)] ex
  have "generate_unique_name pe dir e d = Some (path_join dir (name_attempt_counter e d k))"
    by (simp add: generate_unique_name_def)
  moreover from k(3) have "\<forall>j. 2 \<le> j \<and> j < k \<longrightarrow> pe (path_join dir (name_attempt_counter e d j))"
    by auto
  moreover from k(1) have "2 \<le> k" by simp
  ultimately show "\<exists>k\<ge>2. generate_unique_name pe dir e d =
                    Some (path_join dir (name_attempt_counter e d k)) \<and>
                  \<not> pe (path_join dir (name_attempt_counter e d k)) \<and>
                  (\<forall>j. 2 \<le> j \<and> j < k \<longrightarrow> pe (path_join dir (name_attempt_counter e d j)))"
    using k(2) by blast
qed


text \<open>
  C7. The name of a backup is \<^verbatim>\<open>{db_name}__{YYYY_MM_DD}.dmp.zip\<close>: the extension is
  \<^verbatim>\<open>.dmp.zip\<close>. When that path is free in the store it is the result. When it exists, the
  result is \<^verbatim>\<open>{db_name}__{YYYY_MM_DD}_{k}.dmp.zip\<close> for the first \<open>k\<close> from 2 on whose path
  is free: the names with 2, ..., \<open>k - 1\<close> all exist. The store is finite, so the search ends.
\<close>

theorem unique_name_format:
  "finite {p. pe p} \<Longrightarrow>
   name_attempt e d =
     db_name e @ ''__'' @ zfill 4 (str_nat (year d)) @ ''_'' @ zfill 2 (str_nat (month d)) @
     ''_'' @ zfill 2 (str_nat (day d)) @ ''.dmp.zip'' \<and>
   (\<forall>k. name_attempt_counter e d k =
     db_name e @ ''__'' @ zfill 4 (str_nat (year d)) @ ''_'' @ zfill 2 (str_nat (month d)) @
     ''_'' @ zfill 2 (str_nat (day d)) @ ''_'' @ str_nat k @ ''.dmp.zip'') \<and>
   (\<not> pe (path_join dir (name_attempt e d)) \<longrightarrow>
      generate_unique_name pe dir e d = Some (path_join dir (name_attempt e d))) \<and>
   (pe (path_join dir (name_attempt e d)) \<longrightarrow>
      (\<exists>k\<ge>2. generate_unique_name pe dir e d =
               Some (path_join dir (name_attempt_counter e d k)) \<and>
             \<not> pe (path_join dir (name_attempt_counter e d k)) \<and>
             (\<forall>j. 2 \<le> j \<and> j < k \<longrightarrow> pe (path_join dir (name_attempt_counter e d j)))))"
  using generate_unique_name_cases [of pe dir e d]
  by (simp add: name_attempt_def name_attempt_counter_def strftime_Y_m_d_def)

theorem unique_name_format_counterexample:
  "generate_unique_name (path_exists x_dump w0) ''backups'' production (utcnow x_dump) =
     Some ''backups/shop__2014_06_18.dmp.zip'' \<and>
   generate_unique_name (path_exists x_dump w0) ''backups'' production (utcnow x_dump) \<noteq>
     Some ''backups/shop__2014_06_18.zip'' \<and>
   generate_unique_name (path_exists x_dump w_archive) ''backups'' production (utcnow x_dump) \<noteq>
     Some ''backups/shop__2014_06_18_2.zip''"
proof -
  have u: "utcnow x_dump = \<lparr>year = 2014, month = 6, day = 18\<rparr>"
    by (simp add: x_dump_def x_big_def)
  have a: "generate_unique_name (path_exists x_dump w0) ''backups'' production (utcnow x_dump) =
     Some ''backups/shop__2014_06_18.dmp.zip''"
    by (simp add: u generate_unique_name_def name_attempt_def strftime_example path_join_def
        path_exists_def x_dump_def x_big_def w0_def production_def)
  have b: "generate_unique_name (path_exists x_dump w_archive) ''backups'' production (utcnow x_dump) =
     Some ''backups/shop__2014_06_18_2.dmp.zip''"
    by (simp add: u generate_unique_name_def name_attempt_def name_attempt_counter_def
        strftime_example path_join_def path_exists_def x_dump_def x_big_def w_archive_def w0_def
        production_def unique_name_loop.simps [of _ _ _ _ "Suc 0"] str_nat_small digit_char_def)
  from a b show ?thesis by simp
qed


theorem unique_name_format_witness:
  "finite {p. path_exists x_dump w_archive p} \<and>
   path_exists x_dump w_archive ''backups/shop__2014_06_18.dmp.zip'' \<and>
   generate_unique_name (path_exists x_dump w_archive) ''backups'' production (utcnow x_dump) =
     Some ''backups/shop__2014_06_18_2.dmp.zip'' \<and>
   \<not> path_exists x_dump w0 ''backups/shop__2014_06_18.dmp.zip'' \<and>
   generate_unique_name (path_exists x_dump w0) ''backups'' production (utcnow x_dump) =
     Some ''backups/shop__2014_06_18.dmp.zip''"
proof -
  let ?d = "utcnow x_dump"
  have u: "?d = \<lparr>year = 2014, month = 6, day = 18\<rparr>"
    by (simp add: x_dump_def x_big_def)
  have base: "path_join ''backups'' (name_attempt production ?d) = ''backups/shop__2014_06_18.dmp.zip''"
    by (simp add: u name_attempt_def strftime_example path_join_def production_def)
  have two: "path_join ''backups'' (name_attempt_counter production ?d 2) =
      ''backups/shop__2014_06_18_2.dmp.zip''"
    by (simp add: u name_attempt_counter_def strftime_example path_join_def production_def
        str_nat_small digit_char_def)
  have in_store: "path_exists x_dump w_archive ''backups/shop__2014_06_18.dmp.zip''"
    by (simp add: path_exists_def w_archive_def w0_def)
  have free2: "\<not> path_exists x_dump w_archive ''backups/shop__2014_06_18_2.dmp.zip''"
    by (simp add: path_exists_def w_archive_def w0_def x_dump_def x_big_def)
  have free0: "\<not> path_exists x_dump w0 ''backups/shop__2014_06_18.dmp.zip''"
    by (simp add: path_exists_def w0_def x_dump_def x_big_def)
  note t1 = unique_name_format [OF finite_path_exists [of x_dump w_archive],
      of production ?d "''backups''"]
  note t0 = unique_name_format [OF finite_path_exists [of x_dump w0],
      of production ?d "''backups''"]
  from t1 in_store obtain k where k: "2 \<le> k"
    "generate_unique_name (path_exists x_dump w_archive) ''backups'' production ?d =
       Some (path_join ''backups'' (name_attempt_counter production ?d k))"
    "\<forall>j. 2 \<le> j \<and> j < k \<longrightarrow>
       path_exists x_dump w_archive (path_join ''backups'' (name_attempt_counter production ?d j))"
    unfolding base by blast
  from k(3) free2 have "\<not> 2 < k" unfolding two [symmetric] by blast
  with k(1) have "k = 2" by simp
  with k(2) have a: "generate_unique_name (path_exists x_dump w_archive) ''backups'' production ?d =
     Some ''backups/shop__2014_06_18_2.dmp.zip''"
    by (simp only: two)
  from t0 free0 have b: "generate_unique_name (path_exists x_dump w0) ''backups'' production ?d =
     Some ''backups/shop__2014_06_18.dmp.zip''"
    unfolding base by blast
  from a b in_store free0 finite_path_exists [of x_dump w_archive] show ?thesis by blast
qed

subsection \<open>Two backups on one date\<close>








text \<open>A path of a backup directory is never the file \<^verbatim>\<open>MongoDump.zip\<close> of the current directory.\<close>

lemma store_path_not_mongodump_zip:
  "dir \<noteq> [] \<Longrightarrow> path_join dir item \<noteq> ''MongoDump.zip''"
proof
  assume d: "dir \<noteq> []" and eq: "path_join dir item = ''MongoDump.zip''"
  have "CHR ''/'' \<in> set (path_join dir item)"
  proof (cases "item \<noteq> [] \<and> hd item = CHR ''/''")
    case True
    then have "CHR ''/'' \<in> set item" by (cases item) auto
    with True show ?thesis by (simp add: path_join_def)
  next
    case False
    show ?thesis
    proof (cases "last dir = CHR ''/''")
      case True
      with d have "CHR ''/'' \<in> set dir" by (metis last_in_set)
      with False True d show ?thesis by (auto simp: path_join_def)
    next
      case no_slash: False
      with False d show ?thesis by (auto simp: path_join_def)
    qed
  qed
  with eq show False by simp
qed










end
